theory Spec2Isabelle
  imports Main "HOL-Library.AList"
begin

section \<open>Python values used by the rule\<close>

text \<open>
  The rule \<open>IAM_ROLE_NOT_USED\<close> receives its parameters as a Python dict and the IAM
  roles as boto3 response dicts. Parameter values are the strings of the rule's JSON
  parameters, the integers that \<open>evaluate_parameters\<close> stores back, or \<open>None\<close>.
  A dict is an association list in insertion order: \<open>map_of\<close> reads it and
  \<open>AList.update\<close> is item assignment (an existing key keeps its place, a new key goes
  to the end).
\<close>

datatype pyval = PyNone | PyStr string | PyInt int

type_synonym dict = "(string \<times> pyval) list"

datatype error = ValueError | TypeError | KeyError | AttributeError | InvalidParametersError string

text \<open>Truth value testing: \<open>None\<close>, the empty string and the integer zero are falsy.\<close>

fun truthy :: "pyval \<Rightarrow> bool" where
  "truthy PyNone = False"
| "truthy (PyStr s) = (s \<noteq> [])"
| "truthy (PyInt n) = (n \<noteq> 0)"

text \<open>\<open>d.get(k)\<close> gives \<open>None\<close> for a missing key; \<open>d[k]\<close> raises \<open>KeyError\<close>.\<close>

definition dict_get :: "dict \<Rightarrow> string \<Rightarrow> pyval" where
  "dict_get d k = (case map_of d k of None \<Rightarrow> PyNone | Some v \<Rightarrow> v)"

definition dict_getitem :: "dict \<Rightarrow> string \<Rightarrow> error + pyval" where
  "dict_getitem d k = (case map_of d k of None \<Rightarrow> Inl KeyError | Some v \<Rightarrow> Inr v)"

definition dict_setitem :: "dict \<Rightarrow> string \<Rightarrow> pyval \<Rightarrow> dict" where
  "dict_setitem d k v = AList.update k v d"

subsection \<open>The built-in \<open>int\<close> and \<open>str\<close> on these values\<close>

text \<open>
  \<open>int(s)\<close> on a string strips surrounding whitespace, reads an optional sign and then
  decimal digits, where single underscores may separate digits; anything else raises
  \<open>ValueError\<close>. The model covers ASCII text (the six ASCII whitespace characters and
  the digits \<open>0\<close> to \<open>9\<close>) and integers of any size. \<open>int(None)\<close> raises \<open>TypeError\<close>.
  Two limits of the model: the built-in also accepts the blanks and decimal digits of
  Unicode outside ASCII (\<open>py_int\<close> answers \<open>ValueError\<close> there), and interpreters from
  Python 3.11 raise \<open>ValueError\<close> for a string of more than 4300 digits (\<open>py_int\<close> reads
  it). On a truthy value both raise no error other than \<open>ValueError\<close>.
\<close>

definition is_space :: "char \<Rightarrow> bool" where
  "is_space c = (c \<in> set [CHR '' '', CHR 0x09, CHR 0x0A, CHR 0x0B, CHR 0x0C, CHR 0x0D])"

definition is_digit :: "char \<Rightarrow> bool" where
  "is_digit c = (48 \<le> (of_char c :: nat) \<and> (of_char c :: nat) \<le> 57)"

definition digit_of :: "char \<Rightarrow> nat" where
  "digit_of c = of_char c - 48"

definition char_of_digit :: "nat \<Rightarrow> char" where
  "char_of_digit d = char_of (48 + d)"

fun int_digits :: "nat \<Rightarrow> string \<Rightarrow> nat option" where
  "int_digits acc [] = Some acc"
| "int_digits acc (c # cs) =
     (if is_digit c then int_digits (10 * acc + digit_of c) cs
      else if c = CHR ''_'' then
        (case cs of
           [] \<Rightarrow> None
         | d # ds \<Rightarrow> if is_digit d then int_digits (10 * acc + digit_of d) ds else None)
      else None)"

definition unsigned_literal :: "string \<Rightarrow> nat option" where
  "unsigned_literal s =
     (case s of
        [] \<Rightarrow> None
      | c # cs \<Rightarrow> if is_digit c then int_digits (digit_of c) cs else None)"

definition int_literal :: "string \<Rightarrow> int option" where
  "int_literal s =
     (case s of
        [] \<Rightarrow> None
      | c # cs \<Rightarrow>
          if c = CHR ''-'' then map_option (\<lambda>n. - int n) (unsigned_literal cs)
          else if c = CHR ''+'' then map_option int (unsigned_literal cs)
          else map_option int (unsigned_literal s))"

definition strip :: "string \<Rightarrow> string" where
  "strip s = rev (dropWhile is_space (rev (dropWhile is_space s)))"

fun py_int :: "pyval \<Rightarrow> error + int" where
  "py_int PyNone = Inl TypeError"
| "py_int (PyInt n) = Inr n"
| "py_int (PyStr s) = (case int_literal (strip s) of None \<Rightarrow> Inl ValueError | Some n \<Rightarrow> Inr n)"

text \<open>\<open>str(n)\<close> of an integer: its decimal digits, with a minus sign when negative.\<close>

fun str_nat :: "nat \<Rightarrow> string" where
  "str_nat n = (if n < 10 then [char_of_digit n] else str_nat (n div 10) @ [char_of_digit (n mod 10)])"

declare str_nat.simps [simp del]

definition str_int :: "int \<Rightarrow> string" where
  "str_int i = (if i < 0 then CHR ''-'' # str_nat (nat (- i)) else str_nat (nat i))"

fun py_str :: "pyval \<Rightarrow> string" where
  "py_str PyNone = ''None''"
| "py_str (PyStr s) = s"
| "py_str (PyInt n) = str_int n"

text \<open>\<open>a < n\<close> and \<open>n <= b\<close> for an integer \<open>n\<close>: only integers compare with integers.\<close>

fun py_lt_int :: "pyval \<Rightarrow> int \<Rightarrow> error + bool" where
  "py_lt_int (PyInt a) n = Inr (a < n)"
| "py_lt_int PyNone n = Inl TypeError"
| "py_lt_int (PyStr s) n = Inl TypeError"

fun py_int_le :: "int \<Rightarrow> pyval \<Rightarrow> error + bool" where
  "py_int_le n (PyInt b) = Inr (n \<le> b)"
| "py_int_le n PyNone = Inl TypeError"
| "py_int_le n (PyStr s) = Inl TypeError"

section \<open>Timestamps\<close>

text \<open>
  A timezone-aware \<open>datetime\<close> is its instant in microseconds since the epoch. The
  \<open>days\<close> field of the difference of two instants is the floor of the difference in
  whole days (a negative \<open>timedelta\<close> is normalised to negative days), and HOL's
  \<open>div\<close> on \<open>int\<close> is floor division.
\<close>

type_synonym datetime = int

definition timedelta_days :: "datetime \<Rightarrow> datetime \<Rightarrow> int" where
  "timedelta_days a b = (a - b) div 86400000000"

section \<open>Module state and data\<close>

text \<open>
  \<open>CURRENT_TIME = datetime.now(timezone.utc)\<close> is a module-level assignment: it is
  executed when the module is imported and reads the wall clock then. The process state
  holds the wall clock and that global.
\<close>

record process =
  wall_clock :: datetime
  CURRENT_TIME :: datetime

definition import_module :: "datetime \<Rightarrow> process" where
  "import_module t = \<lparr>wall_clock = t, CURRENT_TIME = t\<rparr>"

definition DEFAULT_DAYS :: int where
  "DEFAULT_DAYS = 90"

definition APPLICABLE_RESOURCES :: "string list" where
  "APPLICABLE_RESOURCES = [''AWS::IAM::Role'']"

text \<open>
  A role of the \<open>list_roles\<close> response. Every key may be missing from the dict
  (\<open>role_data.get\<close> then gives \<open>None\<close>). \<open>RoleLastUsed\<close> is itself a dict with the
  optional keys \<open>LastUsedDate\<close> and \<open>Region\<close>; it is falsy when it has no key.
\<close>

record role_last_used =
  LastUsedDate :: "datetime option"
  Region :: "string option"

record role_data =
  RoleName :: "string option"
  CreateDate :: "datetime option"
  RoleLastUsed :: "role_last_used option"

record page =
  Roles :: "role_data list"

text \<open>The IAM client is the sequence of pages its \<open>list_roles\<close> paginator yields.\<close>

type_synonym iam_client = "page list"

text \<open>
  An \<open>Evaluation\<close> holds the arguments the rule passes to the constructor; the
  annotation is \<open>None\<close> when the keyword argument is not given.
\<close>

datatype ComplianceType = COMPLIANT | NON_COMPLIANT

record Evaluation =
  complianceType :: ComplianceType
  resourceId :: "string option"
  resourceType :: string
  annotation :: "string option"

section \<open>The rule\<close>

fun get_roles_pages :: "page list \<Rightarrow> role_data list \<Rightarrow> role_data list" where
  "get_roles_pages [] roles = roles"
| "get_roles_pages (page # pages) roles = get_roles_pages pages (roles @ Roles page)"

definition get_roles :: "iam_client \<Rightarrow> role_data list" where
  "get_roles iam_client = get_roles_pages iam_client []"

text \<open>Truth value of the \<open>RoleLastUsed\<close> entry: a missing or empty dict is falsy.\<close>

fun last_used_truthy :: "role_last_used option \<Rightarrow> bool" where
  "last_used_truthy None = False"
| "last_used_truthy (Some lu) = (LastUsedDate lu \<noteq> None \<or> Region lu \<noteq> None)"

text \<open>\<open>(CURRENT_TIME - x).days\<close>, where \<open>x\<close> may be \<open>None\<close>.\<close>

fun days_since :: "datetime \<Rightarrow> datetime option \<Rightarrow> error + int" where
  "days_since now None = Inl TypeError"
| "days_since now (Some t) = Inr (timedelta_days now t)"

text \<open>\<open>last_used.get('LastUsedDate')\<close>; \<open>None\<close> has no \<open>get\<close>.\<close>

fun last_used_get_date :: "role_last_used option \<Rightarrow> error + datetime option" where
  "last_used_get_date None = Inl AttributeError"
| "last_used_get_date (Some lu) = Inr (LastUsedDate lu)"

definition role_diff :: "process \<Rightarrow> role_data \<Rightarrow> error + int" where
  "role_diff s role_data =
     (let last_used = RoleLastUsed role_data in
      if last_used_truthy last_used
      then (case last_used_get_date last_used of
              Inl e \<Rightarrow> Inl e
            | Inr d \<Rightarrow> days_since (CURRENT_TIME s) d)
      else (let created_on = CreateDate role_data in
            days_since (CURRENT_TIME s) created_on))"

text \<open>The body of the loop of \<open>evaluate_periodic\<close>: the evaluation appended for one role.\<close>

definition evaluate_role :: "process \<Rightarrow> dict \<Rightarrow> role_data \<Rightarrow> error + Evaluation" where
  \<open>evaluate_role s valid_rule_parameters role_data =
     (let role_name = RoleName role_data in
      case role_diff s role_data of
        Inl e \<Rightarrow> Inl e
      | Inr diff \<Rightarrow>
          (let days_before_unused = dict_get valid_rule_parameters ''DaysBeforeUnused'' in
           case py_int_le diff days_before_unused of
             Inl e \<Rightarrow> Inl e
           | Inr True \<Rightarrow>
               Inr \<lparr>complianceType = COMPLIANT, resourceId = role_name,
                    resourceType = APPLICABLE_RESOURCES ! 0, annotation = None\<rparr>
           | Inr False \<Rightarrow>
               Inr \<lparr>complianceType = NON_COMPLIANT, resourceId = role_name,
                    resourceType = APPLICABLE_RESOURCES ! 0,
                    annotation = Some (''This AWS IAM Role has not been used within the last ''
                                       @ py_str days_before_unused @ '' day(s)'')\<rparr>))\<close>

fun evaluate_roles :: "process \<Rightarrow> dict \<Rightarrow> role_data list \<Rightarrow> Evaluation list \<Rightarrow> error + Evaluation list" where
  "evaluate_roles s valid_rule_parameters [] evaluations = Inr evaluations"
| "evaluate_roles s valid_rule_parameters (role_data # roles) evaluations =
     (case evaluate_role s valid_rule_parameters role_data of
        Inl e \<Rightarrow> Inl e
      | Inr ev \<Rightarrow> evaluate_roles s valid_rule_parameters roles (evaluations @ [ev]))"

definition evaluate_periodic :: "process \<Rightarrow> iam_client \<Rightarrow> dict \<Rightarrow> error + Evaluation list" where
  "evaluate_periodic s iam_client valid_rule_parameters =
     evaluate_roles s valid_rule_parameters (get_roles iam_client) []"

text \<open>
  \<open>evaluate_parameters\<close> assigns into the dict it is given and returns that same dict.
  The model returns the caller's dict as the call leaves it, together with the outcome.
\<close>

definition evaluate_parameters :: "dict \<Rightarrow> dict \<times> (error + dict)" where
  \<open>evaluate_parameters rule_parameters =
     (let p1 = (if \<not> truthy (dict_get rule_parameters ''DaysBeforeUnused'')
                then dict_setitem rule_parameters ''DaysBeforeUnused'' (PyInt DEFAULT_DAYS)
                else rule_parameters) in
      case dict_getitem p1 ''DaysBeforeUnused'' of
        Inl e \<Rightarrow> (p1, Inl e)
      | Inr v \<Rightarrow>
          (case py_int v of
             Inl ValueError \<Rightarrow>
               (p1, Inl (InvalidParametersError ''The parameter "DaysBeforeUnused" must be a integer''))
           | Inl e \<Rightarrow> (p1, Inl e)
           | Inr n \<Rightarrow>
               (let p2 = dict_setitem p1 ''DaysBeforeUnused'' (PyInt n) in
                case dict_getitem p2 ''DaysBeforeUnused'' of
                  Inl e \<Rightarrow> (p2, Inl e)
                | Inr w \<Rightarrow>
                    (case py_lt_int w 0 of
                       Inl e \<Rightarrow> (p2, Inl e)
                     | Inr True \<Rightarrow>
                         (p2, Inl (InvalidParametersError
                            ''The parameter "DaysBeforeUnused" must be greater than or equal to 0''))
                     | Inr False \<Rightarrow> (p2, Inr p2)))))\<close>

section \<open>Auxiliary facts\<close>

subsection \<open>Dicts\<close>

lemma map_of_dict_setitem: "map_of (dict_setitem d k v) = (map_of d)(k \<mapsto> v)"
  by (simp add: dict_setitem_def update_conv')

lemma dict_get_setitem: "dict_get (dict_setitem d k v) k' = (if k' = k then v else dict_get d k')"
  by (simp add: dict_get_def map_of_dict_setitem)

lemma dict_getitem_setitem_same: "dict_getitem (dict_setitem d k v) k = Inr v"
  by (simp add: dict_getitem_def map_of_dict_setitem)

lemma dict_setitem_twice: "dict_setitem (dict_setitem d k v) k w = dict_setitem d k w"
  by (simp add: dict_setitem_def)

lemma truthy_dict_get_map_of: "truthy (dict_get d k) \<Longrightarrow> map_of d k = Some (dict_get d k)"
  by (cases "map_of d k") (simp_all add: dict_get_def)

subsection \<open>\<open>int(str(n))\<close> reads back \<open>n\<close>\<close>

lemma is_digit_char_of_digit: "d < 10 \<Longrightarrow> is_digit (char_of_digit d)"
  by (simp add: is_digit_def char_of_digit_def)

lemma digit_of_char_of_digit: "d < 10 \<Longrightarrow> digit_of (char_of_digit d) = d"
  by (simp add: digit_of_def char_of_digit_def)

lemma is_digit_not_space: "is_digit c \<Longrightarrow> \<not> is_space c"
  by (auto simp: is_digit_def is_space_def)

lemma is_digit_not_sign: "is_digit c \<Longrightarrow> c \<noteq> CHR ''-'' \<and> c \<noteq> CHR ''+'' \<and> c \<noteq> CHR ''_''"
  by (auto simp: is_digit_def)

lemma str_nat_digits: "\<forall>c \<in> set (str_nat n). is_digit c"
proof (induction n rule: str_nat.induct)
  case (1 n)
  show ?case
  proof (cases "n < 10")
    case True
    then show ?thesis by (simp add: str_nat.simps [of n] is_digit_char_of_digit)
  next
    case False
    with 1 show ?thesis by (simp add: str_nat.simps [of n] is_digit_char_of_digit)
  qed
qed

lemma str_nat_nonempty: "str_nat n \<noteq> []"
  by (subst str_nat.simps) simp

lemma unsigned_literal_str_nat_append:
  "unsigned_literal (str_nat n @ cs) = int_digits n cs"
proof (induction n arbitrary: cs rule: str_nat.induct)
  case (1 n)
  show ?case
  proof (cases "n < 10")
    case True
    then show ?thesis
      by (simp add: str_nat.simps [of n] unsigned_literal_def is_digit_char_of_digit
          digit_of_char_of_digit)
  next
    case False
    have d: "n mod 10 < 10" by simp
    have "unsigned_literal (str_nat n @ cs)
        = unsigned_literal (str_nat (n div 10) @ char_of_digit (n mod 10) # cs)"
      using False by (simp add: str_nat.simps [of n])
    also have "\<dots> = int_digits (n div 10) (char_of_digit (n mod 10) # cs)"
      using False by (rule 1)
    also have "\<dots> = int_digits (10 * (n div 10) + n mod 10) cs"
      using d by (simp add: is_digit_char_of_digit digit_of_char_of_digit)
    finally show ?thesis by simp
  qed
qed

lemma unsigned_literal_str_nat: "unsigned_literal (str_nat n) = Some n"
  using unsigned_literal_str_nat_append [of n "[]"] by simp

lemma dropWhile_no_match: "xs \<noteq> [] \<Longrightarrow> \<not> P (hd xs) \<Longrightarrow> dropWhile P xs = xs"
  by (cases xs) simp_all

lemma strip_digits:
  assumes "xs \<noteq> []" and "\<not> is_space (hd xs)" and "\<not> is_space (last xs)"
  shows "strip xs = xs"
proof -
  have 1: "dropWhile is_space xs = xs"
    using assms by (simp add: dropWhile_no_match)
  have 2: "dropWhile is_space (rev xs) = rev xs"
    using assms by (simp add: dropWhile_no_match hd_rev)
  show ?thesis by (simp add: strip_def 1 2)
qed

lemma strip_str_nat: "strip (str_nat n) = str_nat n"
proof -
  have ne: "str_nat n \<noteq> []" by (rule str_nat_nonempty)
  then have "hd (str_nat n) \<in> set (str_nat n)" "last (str_nat n) \<in> set (str_nat n)"
    by simp_all
  then have "\<not> is_space (hd (str_nat n))" "\<not> is_space (last (str_nat n))"
    using str_nat_digits [of n] is_digit_not_space by blast+
  with ne show ?thesis by (rule strip_digits)
qed

lemma int_literal_str_nat: "int_literal (str_nat n) = Some (int n)"
proof -
  obtain c cs where eq: "str_nat n = c # cs"
    using str_nat_nonempty [of n] by (cases "str_nat n") auto
  then have "is_digit c" using str_nat_digits [of n] by simp
  then have "c \<noteq> CHR ''-''" "c \<noteq> CHR ''+''" using is_digit_not_sign by blast+
  then have "int_literal (c # cs) = map_option int (unsigned_literal (c # cs))"
    by (simp add: int_literal_def)
  then show ?thesis using eq unsigned_literal_str_nat [of n] by simp
qed

lemma py_int_str_nonneg: "0 \<le> N \<Longrightarrow> py_int (PyStr (str_int N)) = Inr N"
  by (simp add: str_int_def strip_str_nat int_literal_str_nat)


subsection \<open>The outcomes of \<open>evaluate_parameters\<close>\<close>

lemma py_int_truthy_not_TypeError: "truthy v \<Longrightarrow> py_int v \<noteq> Inl TypeError"
  by (cases v) (simp_all split: option.splits)

lemma py_int_errors: "py_int v = Inl e \<Longrightarrow> e = ValueError \<or> e = TypeError"
  by (cases v) (auto split: option.splits)

lemma py_int_DEFAULT_DAYS: "py_int (PyInt DEFAULT_DAYS) = Inr 90"
  by (simp add: DEFAULT_DAYS_def)

lemma evaluate_parameters_falsy:
  assumes "\<not> truthy (dict_get p ''DaysBeforeUnused'')"
  shows "evaluate_parameters p =
           (dict_setitem p ''DaysBeforeUnused'' (PyInt 90),
            Inr (dict_setitem p ''DaysBeforeUnused'' (PyInt 90)))"
  using assms
  by (simp add: evaluate_parameters_def dict_getitem_setitem_same dict_setitem_twice
      DEFAULT_DAYS_def Let_def)

lemma evaluate_parameters_ValueError:
  assumes "truthy (dict_get p ''DaysBeforeUnused'')"
    and "py_int (dict_get p ''DaysBeforeUnused'') = Inl ValueError"
  shows \<open>evaluate_parameters p =
           (p, Inl (InvalidParametersError ''The parameter "DaysBeforeUnused" must be a integer''))\<close>
proof -
  have "dict_getitem p ''DaysBeforeUnused'' = Inr (dict_get p ''DaysBeforeUnused'')"
    using truthy_dict_get_map_of [OF assms(1)] by (simp add: dict_getitem_def)
  then show ?thesis using assms by (simp add: evaluate_parameters_def)
qed

lemma evaluate_parameters_int:
  assumes "truthy (dict_get p ''DaysBeforeUnused'')"
    and "py_int (dict_get p ''DaysBeforeUnused'') = Inr n"
  shows \<open>evaluate_parameters p =
           (dict_setitem p ''DaysBeforeUnused'' (PyInt n),
            if n < 0
            then Inl (InvalidParametersError
                   ''The parameter "DaysBeforeUnused" must be greater than or equal to 0'')
            else Inr (dict_setitem p ''DaysBeforeUnused'' (PyInt n)))\<close>
proof -
  have "dict_getitem p ''DaysBeforeUnused'' = Inr (dict_get p ''DaysBeforeUnused'')"
    using truthy_dict_get_map_of [OF assms(1)] by (simp add: dict_getitem_def)
  then show ?thesis
    using assms by (simp add: evaluate_parameters_def dict_getitem_setitem_same Let_def)
qed

subsection \<open>The loop of \<open>evaluate_periodic\<close>\<close>

lemma get_roles_pages_concat: "get_roles_pages pages roles = roles @ concat (map Roles pages)"
  by (induction pages arbitrary: roles) simp_all

lemma get_roles_concat: "get_roles iam_client = concat (map Roles iam_client)"
  by (simp add: get_roles_def get_roles_pages_concat)

lemma evaluate_roles_Inr_iff:
  "evaluate_roles s vp roles acc = Inr evs \<longleftrightarrow>
     (\<exists>new. evs = acc @ new \<and> list_all2 (\<lambda>r e. evaluate_role s vp r = Inr e) roles new)"
proof (induction roles arbitrary: acc)
  case Nil
  then show ?case by auto
next
  case (Cons r roles)
  show ?case
  proof (cases "evaluate_role s vp r")
    case (Inl e)
    then show ?thesis by (auto simp: list_all2_Cons1)
  next
    case (Inr ev)
    then show ?thesis by (auto simp: Cons.IH list_all2_Cons1)
  qed
qed

lemma evaluate_periodic_Inr_iff:
  "evaluate_periodic s iam_client vp = Inr evs \<longleftrightarrow>
     list_all2 (\<lambda>r e. evaluate_role s vp r = Inr e) (get_roles iam_client) evs"
  by (simp add: evaluate_periodic_def evaluate_roles_Inr_iff)

lemma evaluate_periodic_nth:
  assumes "evaluate_periodic s iam_client vp = Inr evs"
  shows "length evs = length (get_roles iam_client)"
    and "i < length (get_roles iam_client) \<Longrightarrow> evaluate_role s vp (get_roles iam_client ! i) = Inr (evs ! i)"
  using assms by (auto simp: evaluate_periodic_Inr_iff list_all2_conv_all_nth)

lemma evaluate_role_Inr:
  assumes "evaluate_role s vp r = Inr e"
  obtains age d where "role_diff s r = Inr age" and "dict_get vp ''DaysBeforeUnused'' = PyInt d"
    and "e = (if age \<le> d
              then \<lparr>complianceType = COMPLIANT, resourceId = RoleName r,
                    resourceType = ''AWS::IAM::Role'', annotation = None\<rparr>
              else \<lparr>complianceType = NON_COMPLIANT, resourceId = RoleName r,
                    resourceType = ''AWS::IAM::Role'',
                    annotation = Some (''This AWS IAM Role has not been used within the last ''
                                       @ str_int d @ '' day(s)'')\<rparr>)"
proof (cases "role_diff s r")
  case (Inl x)
  with assms show ?thesis by (simp add: evaluate_role_def)
next
  case (Inr age)
  show ?thesis
  proof (cases "dict_get vp ''DaysBeforeUnused''")
    case PyNone
    with Inr assms show ?thesis by (simp add: evaluate_role_def)
  next
    case (PyStr x)
    with Inr assms show ?thesis by (simp add: evaluate_role_def)
  next
    case (PyInt d)
    with Inr assms have "e = (if age \<le> d
              then \<lparr>complianceType = COMPLIANT, resourceId = RoleName r,
                    resourceType = ''AWS::IAM::Role'', annotation = None\<rparr>
              else \<lparr>complianceType = NON_COMPLIANT, resourceId = RoleName r,
                    resourceType = ''AWS::IAM::Role'',
                    annotation = Some (''This AWS IAM Role has not been used within the last ''
                                       @ str_int d @ '' day(s)'')\<rparr>)"
      by (auto simp: evaluate_role_def APPLICABLE_RESOURCES_def)
    with Inr PyInt show ?thesis by (rule that)
  qed
qed

lemma role_diff_cases:
  "role_diff s r =
     (case RoleLastUsed r of
        None \<Rightarrow> days_since (CURRENT_TIME s) (CreateDate r)
      | Some lu \<Rightarrow>
          if LastUsedDate lu \<noteq> None \<or> Region lu \<noteq> None
          then days_since (CURRENT_TIME s) (LastUsedDate lu)
          else days_since (CURRENT_TIME s) (CreateDate r))"
  by (simp add: role_diff_def split: option.splits)

lemma days_since_Inr_iff:
  "days_since now x = Inr a \<longleftrightarrow> (\<exists>t. x = Some t \<and> a = timedelta_days now t)"
  by (cases x) auto

lemma role_diff_Inr:
  assumes "role_diff s r = Inr age"
  shows "\<exists>ref. (CreateDate r = Some ref
                \<or> (\<exists>lu. RoleLastUsed r = Some lu \<and> LastUsedDate lu = Some ref))
              \<and> age = timedelta_days (CURRENT_TIME s) ref"
  using assms
  by (auto simp: role_diff_cases days_since_Inr_iff split: option.splits if_splits)

lemma floor_div_bounds:
  fixes x n :: int
  assumes "0 < n"
  shows "x div n * n \<le> x \<and> x < (x div n + 1) * n"
proof -
  define q where "q = x div n"
  define m where "m = x mod n"
  have 1: "q * n + m = x"
    unfolding q_def m_def by (rule div_mult_mod_eq)
  have 2: "0 \<le> m" "m < n"
    using assms by (simp_all add: m_def)
  have "q * n \<le> x \<and> x < (q + 1) * n"
    using 1 2 by (simp add: distrib_right; linarith)
  then show ?thesis by (simp add: q_def)
qed

lemma timedelta_days_floor:
  "timedelta_days a b * 86400000000 \<le> a - b
   \<and> a - b < (timedelta_days a b + 1) * 86400000000"
  unfolding timedelta_days_def by (rule floor_div_bounds) simp

lemma evaluate_periodic_single:
  "evaluate_periodic s [\<lparr>Roles = [r]\<rparr>] vp =
     (case evaluate_role s vp r of Inl e \<Rightarrow> Inl e | Inr ev \<Rightarrow> Inr [ev])"
  by (simp add: evaluate_periodic_def get_roles_def split: sum.splits)

lemma list_all2_exists:
  "(\<forall>r \<in> set xs. \<exists>e. f r = Inr e) \<Longrightarrow> \<exists>ys. list_all2 (\<lambda>r e. f r = Inr e) xs ys"
proof (induction xs)
  case Nil
  then show ?case by simp
next
  case (Cons x xs)
  then obtain e ys where "f x = Inr e" "list_all2 (\<lambda>r e. f r = Inr e) xs ys"
    by auto
  then have "list_all2 (\<lambda>r e. f r = Inr e) (x # xs) (e # ys)" by simp
  then show ?case by blast
qed

lemma evaluate_role_succeeds:
  assumes "dict_get vp ''DaysBeforeUnused'' = PyInt d"
    and "(\<exists>lu t. RoleLastUsed r = Some lu \<and> LastUsedDate lu = Some t)
         \<or> ((RoleLastUsed r = None
              \<or> RoleLastUsed r = Some \<lparr>LastUsedDate = None, Region = None\<rparr>)
             \<and> (\<exists>c. CreateDate r = Some c))"
  shows "\<exists>e. evaluate_role s vp r = Inr e"
proof -
  from assms(2) obtain age where "role_diff s r = Inr age"
    by (auto simp: role_diff_cases)
  with assms(1) show ?thesis
    by (cases "age \<le> d") (simp_all add: evaluate_role_def)
qed

lemmas run_defs =
  evaluate_role_def role_diff_def timedelta_days_def dict_get_def APPLICABLE_RESOURCES_def
  import_module_def

lemma evaluate_roles_cong:
  "map (evaluate_role s vp) xs = map (evaluate_role s' vp') ys
   \<Longrightarrow> evaluate_roles s vp xs acc = evaluate_roles s' vp' ys acc"
proof (induction xs arbitrary: ys acc)
  case Nil
  then show ?case by simp
next
  case (Cons x xs)
  then obtain y ys' where ys: "ys = y # ys'" by (cases ys) auto
  with Cons.prems have "evaluate_role s vp x = evaluate_role s' vp' y"
    and "map (evaluate_role s vp) xs = map (evaluate_role s' vp') ys'"
    by simp_all
  then show ?case
    by (simp add: ys Cons.IH split: sum.splits)
qed

lemma evaluate_role_CURRENT_TIME:
  assumes "CURRENT_TIME s = CURRENT_TIME s'"
  shows "evaluate_role s vp r = evaluate_role s' vp r"
  unfolding evaluate_role_def role_diff_def assms by (rule refl)

subsection \<open>Evaluating concrete strings\<close>

lemma char_of_digit_simps:
  "char_of_digit 0 = CHR ''0''" "char_of_digit 1 = CHR ''1''" "char_of_digit 2 = CHR ''2''"
  "char_of_digit 3 = CHR ''3''" "char_of_digit 4 = CHR ''4''" "char_of_digit 5 = CHR ''5''"
  "char_of_digit 6 = CHR ''6''" "char_of_digit 7 = CHR ''7''" "char_of_digit 8 = CHR ''8''"
  "char_of_digit 9 = CHR ''9''"
  by code_simp+

lemma str_int_0: "str_int 0 = ''0''"
  by (simp add: str_int_def str_nat.simps [of 0] char_of_digit_simps)

lemma str_int_80: "str_int 80 = ''80''"
  by (simp add: str_int_def str_nat.simps [of 80] str_nat.simps [of 8] char_of_digit_simps)

lemmas py_int_str_defs =
  strip_def is_space_def int_literal_def unsigned_literal_def is_digit_def digit_of_def

lemma int_literal_minus_10: "int_literal (strip ''-10'') = Some (- 10)"
  by (simp add: py_int_str_defs)

lemma int_literal_sdfsdf: "int_literal (strip ''sdfsdf'') = None"
  by (simp add: py_int_str_defs)

section \<open>Parameter validation\<close>

text \<open>
  C4. When the key \<open>DaysBeforeUnused\<close> is absent from the raw parameters, or its value is
  falsy, validation substitutes the default 90: it succeeds and the returned configuration
  has \<open>DaysBeforeUnused\<close> equal to 90.
\<close>

theorem default_when_absent_or_falsy:
  assumes "map_of p ''DaysBeforeUnused'' = None
           \<or> (\<exists>v. map_of p ''DaysBeforeUnused'' = Some v \<and> \<not> truthy v)"
  shows "\<exists>m. snd (evaluate_parameters p) = Inr m
             \<and> map_of m ''DaysBeforeUnused'' = Some (PyInt 90)
             \<and> dict_get m ''DaysBeforeUnused'' = PyInt 90"
proof -
  have "\<not> truthy (dict_get p ''DaysBeforeUnused'')"
    using assms by (auto simp: dict_get_def)
  then have "snd (evaluate_parameters p) = Inr (dict_setitem p ''DaysBeforeUnused'' (PyInt 90))"
    by (simp add: evaluate_parameters_falsy)
  then show ?thesis
    by (simp add: map_of_dict_setitem dict_get_setitem)
qed

theorem default_when_absent_or_falsy_witness:
  "(map_of ([] :: dict) ''DaysBeforeUnused'' = None
    \<or> (\<exists>v. map_of ([] :: dict) ''DaysBeforeUnused'' = Some v \<and> \<not> truthy v))
   \<and> (\<exists>m. snd (evaluate_parameters []) = Inr m
           \<and> map_of m ''DaysBeforeUnused'' = Some (PyInt 90)
           \<and> dict_get m ''DaysBeforeUnused'' = PyInt 90)"
  using default_when_absent_or_falsy [of "[]"] by simp

text \<open>
  C5. For every non-negative integer \<open>N\<close>, validating the map
  \<open>{"DaysBeforeUnused": str(N)}\<close> succeeds and returns the configuration with
  \<open>DaysBeforeUnused\<close> equal to \<open>N\<close>. The string \<open>"0"\<close> is truthy, so it is read as the
  value 0 and not replaced by the default.
\<close>

theorem decimal_string_accepted:
  assumes "0 \<le> N"
  shows "evaluate_parameters [(''DaysBeforeUnused'', PyStr (str_int N))]
           = ([(''DaysBeforeUnused'', PyInt N)], Inr [(''DaysBeforeUnused'', PyInt N)])"
proof -
  let ?p = "[(''DaysBeforeUnused'', PyStr (str_int N))]"
  have g: "dict_get ?p ''DaysBeforeUnused'' = PyStr (str_int N)"
    by (simp add: dict_get_def)
  have "str_int N \<noteq> []"
    using assms by (simp add: str_int_def str_nat_nonempty)
  then have t: "truthy (dict_get ?p ''DaysBeforeUnused'')"
    by (simp add: g)
  have i: "py_int (dict_get ?p ''DaysBeforeUnused'') = Inr N"
    using assms by (simp only: g py_int_str_nonneg)
  show ?thesis
    using assms by (simp add: evaluate_parameters_int [OF t i] dict_setitem_def)
qed

theorem decimal_string_accepted_witness:
  "(0::int) \<le> 0 \<and> str_int 0 = ''0''
   \<and> evaluate_parameters [(''DaysBeforeUnused'', PyStr ''0'')]
       = ([(''DaysBeforeUnused'', PyInt 0)], Inr [(''DaysBeforeUnused'', PyInt 0)])"
  using decimal_string_accepted [of 0] by (simp add: str_int_0)

text \<open>
  C6. Let \<open>v\<close> be the value of \<open>DaysBeforeUnused\<close> after the default substitution.
  Validation fails with \<open>InvalidParametersError\<close> exactly when \<open>int(v)\<close> does not yield an
  integer or yields a negative one, and it fails with no other error. When \<open>v\<close> is not
  parseable the message is \<open>The parameter "DaysBeforeUnused" must be a integer\<close>; when it
  parses to a negative integer the message is
  \<open>The parameter "DaysBeforeUnused" must be greater than or equal to 0\<close>.
\<close>

theorem invalid_parameters_iff:
  fixes p :: dict
  defines "v \<equiv> (if truthy (dict_get p ''DaysBeforeUnused'')
                 then dict_get p ''DaysBeforeUnused'' else PyInt DEFAULT_DAYS)"
  shows \<open>((\<exists>msg. snd (evaluate_parameters p) = Inl (InvalidParametersError msg))
            \<longleftrightarrow> (\<forall>n. py_int v \<noteq> Inr n) \<or> (\<exists>n. py_int v = Inr n \<and> n < 0))
         \<and> (\<forall>e. snd (evaluate_parameters p) = Inl e \<longrightarrow> (\<exists>msg. e = InvalidParametersError msg))
         \<and> ((\<forall>n. py_int v \<noteq> Inr n) \<longrightarrow>
              snd (evaluate_parameters p)
                = Inl (InvalidParametersError ''The parameter "DaysBeforeUnused" must be a integer''))
         \<and> ((\<exists>n. py_int v = Inr n \<and> n < 0) \<longrightarrow>
              snd (evaluate_parameters p)
                = Inl (InvalidParametersError
                         ''The parameter "DaysBeforeUnused" must be greater than or equal to 0''))\<close>
proof (cases "truthy (dict_get p ''DaysBeforeUnused'')")
  case False
  then have "v = PyInt DEFAULT_DAYS" by (simp add: v_def)
  then have "py_int v = Inr 90" by (simp add: DEFAULT_DAYS_def)
  then show ?thesis using False by (simp add: evaluate_parameters_falsy)
next
  case True
  then have v: "v = dict_get p ''DaysBeforeUnused''" by (simp add: v_def)
  show ?thesis
  proof (cases "py_int v")
    case (Inl e)
    then have "e = ValueError"
      using py_int_errors [of v e] py_int_truthy_not_TypeError [of v] True v by auto
    with Inl have "py_int (dict_get p ''DaysBeforeUnused'') = Inl ValueError"
      by (simp add: v)
    from evaluate_parameters_ValueError [OF True this] Inl show ?thesis by simp
  next
    case (Inr n)
    then have "py_int (dict_get p ''DaysBeforeUnused'') = Inr n" by (simp add: v)
    from evaluate_parameters_int [OF True this] Inr show ?thesis by simp
  qed
qed

theorem invalid_parameters_iff_witness:
  \<open>(\<forall>n. py_int (PyStr ''sdfsdf'') \<noteq> Inr n)
   \<and> snd (evaluate_parameters [(''DaysBeforeUnused'', PyStr ''sdfsdf'')])
       = Inl (InvalidParametersError ''The parameter "DaysBeforeUnused" must be a integer'')
   \<and> (\<exists>n. py_int (PyStr ''-10'') = Inr n \<and> n < 0)
   \<and> snd (evaluate_parameters [(''DaysBeforeUnused'', PyStr ''-10'')])
       = Inl (InvalidParametersError
                ''The parameter "DaysBeforeUnused" must be greater than or equal to 0'')\<close>
  using invalid_parameters_iff [of "[(''DaysBeforeUnused'', PyStr ''sdfsdf'')]"]
    invalid_parameters_iff [of "[(''DaysBeforeUnused'', PyStr ''-10'')]"]
  by (simp add: dict_get_def int_literal_minus_10 int_literal_sdfsdf)

text \<open>
  C9, as the specification states it, does not hold: validation assigns into the dict it
  is given. The empty map holds \<open>DaysBeforeUnused = 90\<close> after the call, and the map
  \<open>{"DaysBeforeUnused": "-10"}\<close> holds the integer \<open>-10\<close> after the call that rejects it.
\<close>

theorem validation_mutates_input_counterexample:
  "fst (evaluate_parameters []) \<noteq> []
   \<and> fst (evaluate_parameters [(''DaysBeforeUnused'', PyStr ''-10'')])
       \<noteq> [(''DaysBeforeUnused'', PyStr ''-10'')]"
proof -
  have 1: "\<not> truthy (dict_get [] ''DaysBeforeUnused'')"
    by (simp add: dict_get_def)
  have 2: "truthy (dict_get [(''DaysBeforeUnused'', PyStr ''-10'')] ''DaysBeforeUnused'')"
    by (simp add: dict_get_def)
  have 3: "py_int (dict_get [(''DaysBeforeUnused'', PyStr ''-10'')] ''DaysBeforeUnused'') = Inr (- 10)"
    by (simp add: dict_get_def int_literal_minus_10)
  show ?thesis
    by (simp add: evaluate_parameters_falsy [OF 1] evaluate_parameters_int [OF 2 3]
        dict_setitem_def)
qed

text \<open>
  C9, amended. Validation changes the supplied map at the key \<open>DaysBeforeUnused\<close> only:
  every other key keeps its value, whether validation succeeds or fails. On success the
  returned map is the supplied map as updated, with \<open>DaysBeforeUnused\<close> bound to the
  validated non-negative integer. When validation fails because the value is not an
  integer, the supplied map is left as it was.
\<close>

theorem validation_updates_only_its_key:
  \<open>(\<forall>k. k \<noteq> ''DaysBeforeUnused'' \<longrightarrow> map_of (fst (evaluate_parameters p)) k = map_of p k)
   \<and> (\<forall>m. snd (evaluate_parameters p) = Inr m \<longrightarrow>
          m = fst (evaluate_parameters p)
          \<and> (\<exists>n. 0 \<le> n \<and> map_of m ''DaysBeforeUnused'' = Some (PyInt n)))
   \<and> (snd (evaluate_parameters p)
        = Inl (InvalidParametersError ''The parameter "DaysBeforeUnused" must be a integer'')
      \<longrightarrow> fst (evaluate_parameters p) = p)\<close>
proof (cases "truthy (dict_get p ''DaysBeforeUnused'')")
  case False
  then show ?thesis by (simp add: evaluate_parameters_falsy map_of_dict_setitem)
next
  case True
  show ?thesis
  proof (cases "py_int (dict_get p ''DaysBeforeUnused'')")
    case (Inl e)
    then have "e = ValueError"
      using py_int_errors [of _ e] py_int_truthy_not_TypeError True by auto
    with Inl have "py_int (dict_get p ''DaysBeforeUnused'') = Inl ValueError" by simp
    from evaluate_parameters_ValueError [OF True this] show ?thesis by simp
  next
    case (Inr n)
    from evaluate_parameters_int [OF True Inr] show ?thesis
      by (simp add: map_of_dict_setitem)
  qed
qed

theorem validation_updates_only_its_key_witness:
  \<open>map_of (fst (evaluate_parameters [(''Other'', PyStr ''x''), (''DaysBeforeUnused'', PyStr ''-10'')])) ''Other''
     = Some (PyStr ''x'')
   \<and> snd (evaluate_parameters []) = Inr (fst (evaluate_parameters []))
   \<and> map_of (fst (evaluate_parameters [])) ''DaysBeforeUnused'' = Some (PyInt 90)
   \<and> fst (evaluate_parameters [(''DaysBeforeUnused'', PyStr ''sdfsdf'')])
       = [(''DaysBeforeUnused'', PyStr ''sdfsdf'')]\<close>
proof -
  have 1: "\<not> truthy (dict_get [] ''DaysBeforeUnused'')"
    by (simp add: dict_get_def)
  have 2: "truthy (dict_get [(''DaysBeforeUnused'', PyStr ''sdfsdf'')] ''DaysBeforeUnused'')"
    by (simp add: dict_get_def)
  have 3: "py_int (dict_get [(''DaysBeforeUnused'', PyStr ''sdfsdf'')] ''DaysBeforeUnused'')
             = Inl ValueError"
    by (simp add: dict_get_def int_literal_sdfsdf)
  show ?thesis
    using validation_updates_only_its_key
            [of "[(''Other'', PyStr ''x''), (''DaysBeforeUnused'', PyStr ''-10'')]"]
      validation_updates_only_its_key [of "[]"]
      validation_updates_only_its_key [of "[(''DaysBeforeUnused'', PyStr ''sdfsdf'')]"]
    by (simp add: evaluate_parameters_falsy [OF 1] evaluate_parameters_ValueError [OF 2 3]
        map_of_dict_setitem)
qed

section \<open>Compliance evaluation\<close>

text \<open>
  C1. A role is classified \<open>COMPLIANT\<close> exactly when its age in whole days is at most the
  configured \<open>DaysBeforeUnused\<close>, and \<open>NON_COMPLIANT\<close> otherwise; an age equal to the
  threshold is compliant. The age is the floor of the difference between \<open>CURRENT_TIME\<close>
  and the role's reference instant (its last-used date or its creation date) in days.
  The classification is produced: a role with an age, under an integer threshold, is
  evaluated without error; a run over roles that all have a reference instant returns,
  with that classification at every position; and every run that returns has classified
  every role so.
\<close>

theorem compliant_iff_age_within_threshold:
  "(\<forall>age d. dict_get vp ''DaysBeforeUnused'' = PyInt d \<and> role_diff s r = Inr age \<longrightarrow>
       (\<exists>e. evaluate_role s vp r = Inr e
            \<and> complianceType e = (if age \<le> d then COMPLIANT else NON_COMPLIANT)))
   \<and> (\<forall>d. dict_get vp ''DaysBeforeUnused'' = PyInt d
            \<and> (\<forall>r \<in> set (get_roles iam_client).
                  (\<exists>lu t. RoleLastUsed r = Some lu \<and> LastUsedDate lu = Some t)
                  \<or> ((RoleLastUsed r = None
                       \<or> RoleLastUsed r = Some \<lparr>LastUsedDate = None, Region = None\<rparr>)
                      \<and> (\<exists>c. CreateDate r = Some c)))
          \<longrightarrow> (\<exists>evs. evaluate_periodic s iam_client vp = Inr evs
                    \<and> length evs = length (get_roles iam_client)
                    \<and> (\<forall>i < length evs. \<exists>age.
                          role_diff s (get_roles iam_client ! i) = Inr age
                          \<and> complianceType (evs ! i)
                              = (if age \<le> d then COMPLIANT else NON_COMPLIANT))))
   \<and> (\<forall>evs i. evaluate_periodic s iam_client vp = Inr evs
               \<and> i < length (get_roles iam_client) \<longrightarrow>
         (\<exists>age d ref.
            role_diff s (get_roles iam_client ! i) = Inr age
            \<and> dict_get vp ''DaysBeforeUnused'' = PyInt d
            \<and> (complianceType (evs ! i) = COMPLIANT \<longleftrightarrow> age \<le> d)
            \<and> (complianceType (evs ! i) = NON_COMPLIANT \<longleftrightarrow> d < age)
            \<and> (CreateDate (get_roles iam_client ! i) = Some ref
                 \<or> (\<exists>lu. RoleLastUsed (get_roles iam_client ! i) = Some lu
                          \<and> LastUsedDate lu = Some ref))
            \<and> age * 86400000000 \<le> CURRENT_TIME s - ref
            \<and> CURRENT_TIME s - ref < (age + 1) * 86400000000))"
proof -
  have role: "\<exists>e. evaluate_role s vp r = Inr e
                 \<and> complianceType e = (if age \<le> d then COMPLIANT else NON_COMPLIANT)"
    if "dict_get vp ''DaysBeforeUnused'' = PyInt d" and "role_diff s r = Inr age" for age d
    using that by (simp add: evaluate_role_def)
  have returned: "\<exists>age d ref.
            role_diff s (get_roles iam_client ! i) = Inr age
            \<and> dict_get vp ''DaysBeforeUnused'' = PyInt d
            \<and> (complianceType (evs ! i) = COMPLIANT \<longleftrightarrow> age \<le> d)
            \<and> (complianceType (evs ! i) = NON_COMPLIANT \<longleftrightarrow> d < age)
            \<and> (CreateDate (get_roles iam_client ! i) = Some ref
                 \<or> (\<exists>lu. RoleLastUsed (get_roles iam_client ! i) = Some lu
                          \<and> LastUsedDate lu = Some ref))
            \<and> age * 86400000000 \<le> CURRENT_TIME s - ref
            \<and> CURRENT_TIME s - ref < (age + 1) * 86400000000"
    if run: "evaluate_periodic s iam_client vp = Inr evs"
      and i: "i < length (get_roles iam_client)" for evs i
  proof -
    let ?r = "get_roles iam_client ! i"
    have "evaluate_role s vp ?r = Inr (evs ! i)"
      using run i by (rule evaluate_periodic_nth(2))
    then obtain age d where age: "role_diff s ?r = Inr age"
      and d: "dict_get vp ''DaysBeforeUnused'' = PyInt d"
      and e: "evs ! i = (if age \<le> d
                then \<lparr>complianceType = COMPLIANT, resourceId = RoleName ?r,
                      resourceType = ''AWS::IAM::Role'', annotation = None\<rparr>
                else \<lparr>complianceType = NON_COMPLIANT, resourceId = RoleName ?r,
                      resourceType = ''AWS::IAM::Role'',
                      annotation = Some (''This AWS IAM Role has not been used within the last ''
                                         @ str_int d @ '' day(s)'')\<rparr>)"
      by (rule evaluate_role_Inr)
    from role_diff_Inr [OF age] obtain ref where
      ref: "CreateDate ?r = Some ref \<or> (\<exists>lu. RoleLastUsed ?r = Some lu \<and> LastUsedDate lu = Some ref)"
      and a: "age = timedelta_days (CURRENT_TIME s) ref"
      by blast
    have c: "(complianceType (evs ! i) = COMPLIANT \<longleftrightarrow> age \<le> d)
             \<and> (complianceType (evs ! i) = NON_COMPLIANT \<longleftrightarrow> d < age)"
      by (simp add: e)
    have f: "age * 86400000000 \<le> CURRENT_TIME s - ref
             \<and> CURRENT_TIME s - ref < (age + 1) * 86400000000"
      unfolding a by (rule timedelta_days_floor)
    from age d c ref f show ?thesis by blast
  qed
  have total: "\<exists>evs. evaluate_periodic s iam_client vp = Inr evs
                    \<and> length evs = length (get_roles iam_client)
                    \<and> (\<forall>i < length evs. \<exists>age.
                          role_diff s (get_roles iam_client ! i) = Inr age
                          \<and> complianceType (evs ! i)
                              = (if age \<le> d then COMPLIANT else NON_COMPLIANT))"
    if d: "dict_get vp ''DaysBeforeUnused'' = PyInt d"
      and wf: "\<forall>r \<in> set (get_roles iam_client).
                  (\<exists>lu t. RoleLastUsed r = Some lu \<and> LastUsedDate lu = Some t)
                  \<or> ((RoleLastUsed r = None
                       \<or> RoleLastUsed r = Some \<lparr>LastUsedDate = None, Region = None\<rparr>)
                      \<and> (\<exists>c. CreateDate r = Some c))" for d
  proof -
    have "\<forall>r \<in> set (get_roles iam_client). \<exists>e. evaluate_role s vp r = Inr e"
      using wf evaluate_role_succeeds [OF d] by blast
    then have "\<exists>evs. list_all2 (\<lambda>r e. evaluate_role s vp r = Inr e) (get_roles iam_client) evs"
      by (rule list_all2_exists)
    then obtain evs where run: "evaluate_periodic s iam_client vp = Inr evs"
      by (auto simp: evaluate_periodic_Inr_iff)
    have len: "length evs = length (get_roles iam_client)"
      using run by (rule evaluate_periodic_nth(1))
    have "\<exists>age. role_diff s (get_roles iam_client ! i) = Inr age
                \<and> complianceType (evs ! i) = (if age \<le> d then COMPLIANT else NON_COMPLIANT)"
      if "i < length evs" for i
    proof -
      from that len have "i < length (get_roles iam_client)" by simp
      from returned [OF run this] d show ?thesis by auto
    qed
    with run len show ?thesis by blast
  qed
  from role total returned show ?thesis by blast
qed

theorem compliant_iff_age_within_threshold_witness:
  "dict_get [(''DaysBeforeUnused'', PyInt 80)] ''DaysBeforeUnused'' = PyInt 80
   \<and> role_diff (import_module 17280000000000)
        \<lparr>RoleName = Some ''config-rule'', CreateDate = Some 0,
          RoleLastUsed = Some \<lparr>LastUsedDate = Some 10368000000000, Region = None\<rparr>\<rparr> = Inr 80
   \<and> role_diff (import_module 17280000000000)
        \<lparr>RoleName = Some ''AWS-CodePipeline-Service'', CreateDate = Some 10281600000000,
          RoleLastUsed = None\<rparr> = Inr 81
   \<and> (\<exists>evs. evaluate_periodic (import_module 17280000000000)
              [\<lparr>Roles = [\<lparr>RoleName = Some ''config-rule'', CreateDate = Some 0,
                          RoleLastUsed = Some \<lparr>LastUsedDate = Some 10368000000000,
                                               Region = None\<rparr>\<rparr>,
                         \<lparr>RoleName = Some ''AWS-CodePipeline-Service'',
                          CreateDate = Some 10281600000000, RoleLastUsed = None\<rparr>]\<rparr>]
              [(''DaysBeforeUnused'', PyInt 80)] = Inr evs
            \<and> length evs = 2
            \<and> complianceType (evs ! 0) = COMPLIANT
            \<and> complianceType (evs ! 1) = NON_COMPLIANT)"
proof -
  let ?s = "import_module 17280000000000"
  let ?r0 = "\<lparr>RoleName = Some ''config-rule'', CreateDate = Some 0,
              RoleLastUsed = Some \<lparr>LastUsedDate = Some 10368000000000, Region = None\<rparr>\<rparr>"
  let ?r1 = "\<lparr>RoleName = Some ''AWS-CodePipeline-Service'', CreateDate = Some 10281600000000,
              RoleLastUsed = None\<rparr>"
  let ?c = "[\<lparr>Roles = [?r0, ?r1]\<rparr>]"
  let ?p = "[(''DaysBeforeUnused'', PyInt 80)]"
  have d: "dict_get ?p ''DaysBeforeUnused'' = PyInt 80"
    by (simp add: dict_get_def)
  have roles: "get_roles ?c = [?r0, ?r1]"
    by (simp add: get_roles_def)
  have wf: "\<forall>r \<in> set (get_roles ?c).
              (\<exists>lu t. RoleLastUsed r = Some lu \<and> LastUsedDate lu = Some t)
              \<or> ((RoleLastUsed r = None
                   \<or> RoleLastUsed r = Some \<lparr>LastUsedDate = None, Region = None\<rparr>)
                  \<and> (\<exists>c. CreateDate r = Some c))"
    by (simp add: roles)
  have a0: "role_diff ?s ?r0 = Inr 80" and a1: "role_diff ?s ?r1 = Inr 81"
    by (simp_all add: run_defs)
  from compliant_iff_age_within_threshold [where s = ?s and vp = ?p and iam_client = ?c] d wf
  obtain evs where run: "evaluate_periodic ?s ?c ?p = Inr evs"
    and len: "length evs = length (get_roles ?c)"
    and cls: "\<forall>i < length evs. \<exists>age.
                role_diff ?s (get_roles ?c ! i) = Inr age
                \<and> complianceType (evs ! i) = (if age \<le> 80 then COMPLIANT else NON_COMPLIANT)"
    by blast
  from len have l: "length evs = 2"
    by (simp add: roles)
  from cls l have "\<exists>age. role_diff ?s (get_roles ?c ! 0) = Inr age
                     \<and> complianceType (evs ! 0) = (if age \<le> 80 then COMPLIANT else NON_COMPLIANT)"
    and "\<exists>age. role_diff ?s (get_roles ?c ! 1) = Inr age
               \<and> complianceType (evs ! 1) = (if age \<le> 80 then COMPLIANT else NON_COMPLIANT)"
    by simp_all
  then have "complianceType (evs ! 0) = COMPLIANT" and "complianceType (evs ! 1) = NON_COMPLIANT"
    by (auto simp: roles a0 a1)
  with d a0 a1 run l show ?thesis by blast
qed

text \<open>
  C2. The reference instant of a role is its last-used date when the role carries one, and
  its creation date when it has no \<open>RoleLastUsed\<close> entry: in a run that returns, the age
  of the role at position \<open>i\<close> is measured from that instant and the classification follows
  from it. A role never used since its creation is judged by its creation date.
\<close>

theorem reference_instant:
  assumes "evaluate_periodic s iam_client vp = Inr evs"
    and "i < length (get_roles iam_client)"
    and "r = get_roles iam_client ! i"
  shows "\<exists>d. dict_get vp ''DaysBeforeUnused'' = PyInt d
           \<and> (\<forall>lu t. RoleLastUsed r = Some lu \<and> LastUsedDate lu = Some t \<longrightarrow>
                  role_diff s r = Inr (timedelta_days (CURRENT_TIME s) t)
                  \<and> (complianceType (evs ! i) = COMPLIANT
                       \<longleftrightarrow> timedelta_days (CURRENT_TIME s) t \<le> d))
           \<and> (RoleLastUsed r = None \<longrightarrow>
                  (\<exists>c. CreateDate r = Some c
                       \<and> role_diff s r = Inr (timedelta_days (CURRENT_TIME s) c)
                       \<and> (complianceType (evs ! i) = COMPLIANT
                            \<longleftrightarrow> timedelta_days (CURRENT_TIME s) c \<le> d)))"
proof -
  have "evaluate_role s vp r = Inr (evs ! i)"
    unfolding assms(3) using assms(1,2) by (rule evaluate_periodic_nth(2))
  then obtain age d where age: "role_diff s r = Inr age"
    and d: "dict_get vp ''DaysBeforeUnused'' = PyInt d"
    and e: "evs ! i = (if age \<le> d
              then \<lparr>complianceType = COMPLIANT, resourceId = RoleName r,
                    resourceType = ''AWS::IAM::Role'', annotation = None\<rparr>
              else \<lparr>complianceType = NON_COMPLIANT, resourceId = RoleName r,
                    resourceType = ''AWS::IAM::Role'',
                    annotation = Some (''This AWS IAM Role has not been used within the last ''
                                       @ str_int d @ '' day(s)'')\<rparr>)"
    by (rule evaluate_role_Inr)
  have c: "complianceType (evs ! i) = COMPLIANT \<longleftrightarrow> age \<le> d"
    by (simp add: e)
  have used: "\<forall>lu t. RoleLastUsed r = Some lu \<and> LastUsedDate lu = Some t \<longrightarrow>
                  role_diff s r = Inr (timedelta_days (CURRENT_TIME s) t)
                  \<and> (complianceType (evs ! i) = COMPLIANT
                       \<longleftrightarrow> timedelta_days (CURRENT_TIME s) t \<le> d)"
  proof (intro allI impI, elim conjE)
    fix lu t
    assume "RoleLastUsed r = Some lu" "LastUsedDate lu = Some t"
    then have "role_diff s r = Inr (timedelta_days (CURRENT_TIME s) t)"
      by (simp add: role_diff_cases)
    with age c show "role_diff s r = Inr (timedelta_days (CURRENT_TIME s) t)
                  \<and> (complianceType (evs ! i) = COMPLIANT
                       \<longleftrightarrow> timedelta_days (CURRENT_TIME s) t \<le> d)"
      by simp
  qed
  have created: "RoleLastUsed r = None \<longrightarrow>
                  (\<exists>c. CreateDate r = Some c
                       \<and> role_diff s r = Inr (timedelta_days (CURRENT_TIME s) c)
                       \<and> (complianceType (evs ! i) = COMPLIANT
                            \<longleftrightarrow> timedelta_days (CURRENT_TIME s) c \<le> d))"
  proof
    assume "RoleLastUsed r = None"
    then have "role_diff s r = days_since (CURRENT_TIME s) (CreateDate r)"
      by (simp add: role_diff_cases)
    with age obtain t where "CreateDate r = Some t" "age = timedelta_days (CURRENT_TIME s) t"
      by (auto simp: days_since_Inr_iff)
    with age c show "\<exists>c. CreateDate r = Some c
                       \<and> role_diff s r = Inr (timedelta_days (CURRENT_TIME s) c)
                       \<and> (complianceType (evs ! i) = COMPLIANT
                            \<longleftrightarrow> timedelta_days (CURRENT_TIME s) c \<le> d)"
      by simp
  qed
  show ?thesis
    using d used created by (intro exI [of _ d] conjI)
qed

theorem reference_instant_witness:
  "evaluate_periodic (import_module 17280000000000)
     [\<lparr>Roles = [\<lparr>RoleName = Some ''AWS-CodePipeline-Service'', CreateDate = Some 8640000000000,
                 RoleLastUsed = None\<rparr>,
                \<lparr>RoleName = Some ''config-rule'', CreateDate = Some 0,
                 RoleLastUsed = Some \<lparr>LastUsedDate = Some 17280000000000, Region = None\<rparr>\<rparr>]\<rparr>]
     [(''DaysBeforeUnused'', PyInt 80)]
     = Inr [\<lparr>complianceType = NON_COMPLIANT, resourceId = Some ''AWS-CodePipeline-Service'',
             resourceType = ''AWS::IAM::Role'',
             annotation = Some ''This AWS IAM Role has not been used within the last 80 day(s)''\<rparr>,
            \<lparr>complianceType = COMPLIANT, resourceId = Some ''config-rule'',
             resourceType = ''AWS::IAM::Role'', annotation = None\<rparr>]
   \<and> role_diff (import_module 17280000000000)
        \<lparr>RoleName = Some ''AWS-CodePipeline-Service'', CreateDate = Some 8640000000000,
          RoleLastUsed = None\<rparr>
       = Inr (timedelta_days 17280000000000 8640000000000)
   \<and> timedelta_days 17280000000000 8640000000000 = 100
   \<and> role_diff (import_module 17280000000000)
        \<lparr>RoleName = Some ''config-rule'', CreateDate = Some 0,
          RoleLastUsed = Some \<lparr>LastUsedDate = Some 17280000000000, Region = None\<rparr>\<rparr>
       = Inr (timedelta_days 17280000000000 17280000000000)"
proof -
  let ?s = "import_module 17280000000000"
  let ?r0 = "\<lparr>RoleName = Some ''AWS-CodePipeline-Service'', CreateDate = Some 8640000000000,
              RoleLastUsed = None\<rparr>"
  let ?r1 = "\<lparr>RoleName = Some ''config-rule'', CreateDate = Some 0,
              RoleLastUsed = Some \<lparr>LastUsedDate = Some 17280000000000, Region = None\<rparr>\<rparr>"
  let ?c = "[\<lparr>Roles = [?r0, ?r1]\<rparr>]"
  let ?p = "[(''DaysBeforeUnused'', PyInt 80)]"
  let ?evs = "[\<lparr>complianceType = NON_COMPLIANT, resourceId = Some ''AWS-CodePipeline-Service'',
             resourceType = ''AWS::IAM::Role'',
             annotation = Some ''This AWS IAM Role has not been used within the last 80 day(s)''\<rparr>,
            \<lparr>complianceType = COMPLIANT, resourceId = Some ''config-rule'',
             resourceType = ''AWS::IAM::Role'', annotation = None\<rparr>]"
  have run: "evaluate_periodic ?s ?c ?p = Inr ?evs"
    by (simp add: evaluate_periodic_def get_roles_def run_defs str_int_80)
  have l0: "0 < length (get_roles ?c)" and l1: "1 < length (get_roles ?c)"
    by (simp_all add: get_roles_def)
  have r0: "?r0 = get_roles ?c ! 0" and r1: "?r1 = get_roles ?c ! 1"
    by (simp_all add: get_roles_def)
  have days: "timedelta_days 17280000000000 8640000000000 = 100"
    by (simp add: timedelta_days_def)
  from reference_instant [OF run l0 r0] reference_instant [OF run l1 r1] run days
  show ?thesis by (auto simp add: import_module_def)
qed

text \<open>
  C3. Every \<open>NON_COMPLIANT\<close> evaluation of a run carries the annotation
  \<open>This AWS IAM Role has not been used within the last {d} day(s)\<close>, where \<open>d\<close> is the
  configured \<open>DaysBeforeUnused\<close> (not the age of the role), and every \<open>COMPLIANT\<close>
  evaluation carries no annotation.
\<close>

theorem annotation_names_threshold:
  assumes "evaluate_periodic s iam_client vp = Inr evs"
    and "e \<in> set evs"
  shows "\<exists>d. dict_get vp ''DaysBeforeUnused'' = PyInt d
           \<and> (complianceType e = NON_COMPLIANT \<longrightarrow>
                 annotation e = Some (''This AWS IAM Role has not been used within the last ''
                                      @ str_int d @ '' day(s)''))
           \<and> (complianceType e = COMPLIANT \<longrightarrow> annotation e = None)"
proof -
  from assms(2) obtain i where i: "i < length evs" and ei: "evs ! i = e"
    by (auto simp: in_set_conv_nth)
  have len: "length evs = length (get_roles iam_client)"
    using assms(1) by (rule evaluate_periodic_nth(1))
  let ?r = "get_roles iam_client ! i"
  have "evaluate_role s vp ?r = Inr e"
    using evaluate_periodic_nth(2) [OF assms(1)] i len ei by simp
  then obtain age d where d: "dict_get vp ''DaysBeforeUnused'' = PyInt d"
    and e: "e = (if age \<le> d
              then \<lparr>complianceType = COMPLIANT, resourceId = RoleName ?r,
                    resourceType = ''AWS::IAM::Role'', annotation = None\<rparr>
              else \<lparr>complianceType = NON_COMPLIANT, resourceId = RoleName ?r,
                    resourceType = ''AWS::IAM::Role'',
                    annotation = Some (''This AWS IAM Role has not been used within the last ''
                                       @ str_int d @ '' day(s)'')\<rparr>)"
    by (rule evaluate_role_Inr)
  have "(complianceType e = NON_COMPLIANT \<longrightarrow>
           annotation e = Some (''This AWS IAM Role has not been used within the last ''
                                @ str_int d @ '' day(s)''))
        \<and> (complianceType e = COMPLIANT \<longrightarrow> annotation e = None)"
    by (cases "age \<le> d") (simp_all add: e)
  with d show ?thesis by blast
qed

theorem annotation_names_threshold_witness:
  "evaluate_periodic (import_module 17280000000000)
     [\<lparr>Roles = [\<lparr>RoleName = Some ''AWS-CodePipeline-Service'', CreateDate = None,
                 RoleLastUsed = Some \<lparr>LastUsedDate = Some 0, Region = None\<rparr>\<rparr>]\<rparr>]
     [(''DaysBeforeUnused'', PyInt 80)]
     = Inr [\<lparr>complianceType = NON_COMPLIANT, resourceId = Some ''AWS-CodePipeline-Service'',
             resourceType = ''AWS::IAM::Role'',
             annotation = Some ''This AWS IAM Role has not been used within the last 80 day(s)''\<rparr>]
   \<and> role_diff (import_module 17280000000000)
        \<lparr>RoleName = Some ''AWS-CodePipeline-Service'', CreateDate = None,
          RoleLastUsed = Some \<lparr>LastUsedDate = Some 0, Region = None\<rparr>\<rparr> = Inr 200
   \<and> ''This AWS IAM Role has not been used within the last '' @ str_int 80 @ '' day(s)''
       = ''This AWS IAM Role has not been used within the last 80 day(s)''"
proof -
  let ?s = "import_module 17280000000000"
  let ?r = "\<lparr>RoleName = Some ''AWS-CodePipeline-Service'', CreateDate = None,
             RoleLastUsed = Some \<lparr>LastUsedDate = Some 0, Region = None\<rparr>\<rparr>"
  let ?c = "[\<lparr>Roles = [?r]\<rparr>]"
  let ?p = "[(''DaysBeforeUnused'', PyInt 80)]"
  let ?e = "\<lparr>complianceType = NON_COMPLIANT, resourceId = Some ''AWS-CodePipeline-Service'',
             resourceType = ''AWS::IAM::Role'',
             annotation = Some ''This AWS IAM Role has not been used within the last 80 day(s)''\<rparr>"
  have run: "evaluate_periodic ?s ?c ?p = Inr [?e]"
    by (simp add: evaluate_periodic_single run_defs str_int_80)
  have mem: "?e \<in> set [?e]"
    by simp
  have age: "role_diff ?s ?r = Inr 200"
    by (simp add: run_defs)
  from annotation_names_threshold [OF run mem] run age
  show ?thesis by (auto simp: dict_get_def)
qed




text \<open>
  C10. A role whose \<open>RoleLastUsed\<close> entry is present but empty is evaluated exactly as the
  same role without the entry: its age is measured from its creation date, no last-used
  date is read, and a run over a source that holds the one role returns what the run over
  the source that holds the other returns.
\<close>

theorem empty_last_used_like_absent:
  "evaluate_role s vp (r\<lparr>RoleLastUsed := Some \<lparr>LastUsedDate = None, Region = None\<rparr>\<rparr>)
     = evaluate_role s vp (r\<lparr>RoleLastUsed := None\<rparr>)
   \<and> role_diff s (r\<lparr>RoleLastUsed := Some \<lparr>LastUsedDate = None, Region = None\<rparr>\<rparr>)
       = days_since (CURRENT_TIME s) (CreateDate r)
   \<and> (\<forall>c. CreateDate r = Some c \<longrightarrow>
          role_diff s (r\<lparr>RoleLastUsed := Some \<lparr>LastUsedDate = None, Region = None\<rparr>\<rparr>)
            = Inr (timedelta_days (CURRENT_TIME s) c))
   \<and> evaluate_periodic s
        [\<lparr>Roles = before @ r\<lparr>RoleLastUsed := Some \<lparr>LastUsedDate = None, Region = None\<rparr>\<rparr> # after\<rparr>] vp
       = evaluate_periodic s [\<lparr>Roles = before @ r\<lparr>RoleLastUsed := None\<rparr> # after\<rparr>] vp"
proof -
  let ?e = "r\<lparr>RoleLastUsed := Some \<lparr>LastUsedDate = None, Region = None\<rparr>\<rparr>"
  let ?n = "r\<lparr>RoleLastUsed := None\<rparr>"
  have diff: "role_diff s ?e = days_since (CURRENT_TIME s) (CreateDate r)"
    by (simp add: role_diff_def)
  have "role_diff s ?n = days_since (CURRENT_TIME s) (CreateDate r)"
    by (simp add: role_diff_def)
  with diff have role: "evaluate_role s vp ?e = evaluate_role s vp ?n"
    by (simp add: evaluate_role_def)
  have run: "evaluate_periodic s [\<lparr>Roles = before @ ?e # after\<rparr>] vp
             = evaluate_periodic s [\<lparr>Roles = before @ ?n # after\<rparr>] vp"
    unfolding evaluate_periodic_def
    by (rule evaluate_roles_cong) (simp add: get_roles_def role)
  from diff role run show ?thesis by simp
qed

theorem empty_last_used_like_absent_witness:
  "CreateDate \<lparr>RoleName = Some ''never-used'', CreateDate = Some 0, RoleLastUsed = None\<rparr> = Some 0
   \<and> role_diff (import_module 8640000000000)
       \<lparr>RoleName = Some ''never-used'', CreateDate = Some 0,
         RoleLastUsed = Some \<lparr>LastUsedDate = None, Region = None\<rparr>\<rparr> = Inr 100
   \<and> evaluate_periodic (import_module 8640000000000)
       [\<lparr>Roles = [\<lparr>RoleName = Some ''never-used'', CreateDate = Some 0,
                   RoleLastUsed = Some \<lparr>LastUsedDate = None, Region = None\<rparr>\<rparr>]\<rparr>]
       [(''DaysBeforeUnused'', PyInt 80)]
      = evaluate_periodic (import_module 8640000000000)
          [\<lparr>Roles = [\<lparr>RoleName = Some ''never-used'', CreateDate = Some 0,
                      RoleLastUsed = None\<rparr>]\<rparr>]
          [(''DaysBeforeUnused'', PyInt 80)]"
  using empty_last_used_like_absent
          [of "import_module 8640000000000" "[(''DaysBeforeUnused'', PyInt 80)]"
              "\<lparr>RoleName = Some ''never-used'', CreateDate = Some 0, RoleLastUsed = None\<rparr>"
              "[]" "[]"]
  by (simp add: import_module_def timedelta_days_def)

section \<open>The clock\<close>

text \<open>
  C7, as the specification states it, does not hold: the clock is not read in the run.
  Two runs with the same roles, the same threshold and the same wall-clock reading (150
  days) differ when their processes imported the module at different times: the process
  that imported it at day 100 still measures the role last used at day 40 as 60 days old
  and reports it \<open>COMPLIANT\<close>, the process that imported it at day 150 measures 110 days and
  reports it \<open>NON_COMPLIANT\<close>.
\<close>

theorem now_sampled_per_run_counterexample:
  "wall_clock ((import_module 8640000000000)\<lparr>wall_clock := 12960000000000\<rparr>)
     = wall_clock (import_module 12960000000000)
   \<and> evaluate_periodic ((import_module 8640000000000)\<lparr>wall_clock := 12960000000000\<rparr>)
        [\<lparr>Roles = [\<lparr>RoleName = Some ''config-rule'', CreateDate = Some 0,
                    RoleLastUsed = Some \<lparr>LastUsedDate = Some 3456000000000, Region = None\<rparr>\<rparr>]\<rparr>]
        [(''DaysBeforeUnused'', PyInt 80)]
       = Inr [\<lparr>complianceType = COMPLIANT, resourceId = Some ''config-rule'',
               resourceType = ''AWS::IAM::Role'', annotation = None\<rparr>]
   \<and> evaluate_periodic (import_module 12960000000000)
        [\<lparr>Roles = [\<lparr>RoleName = Some ''config-rule'', CreateDate = Some 0,
                    RoleLastUsed = Some \<lparr>LastUsedDate = Some 3456000000000, Region = None\<rparr>\<rparr>]\<rparr>]
        [(''DaysBeforeUnused'', PyInt 80)]
       = Inr [\<lparr>complianceType = NON_COMPLIANT, resourceId = Some ''config-rule'',
               resourceType = ''AWS::IAM::Role'',
               annotation = Some ''This AWS IAM Role has not been used within the last 80 day(s)''\<rparr>]"
  by (simp add: evaluate_periodic_single run_defs str_int_80)

text \<open>
  C7, amended. The current time is read once, when the module is imported, and kept in
  \<open>CURRENT_TIME\<close>; the passing of time does not change it. Every role of a run is judged
  against that one instant, and so is every run of the same process. The result of a run
  is a function of the configuration, the roles and that import-time reading: two runs
  with identical inputs in processes with identical \<open>CURRENT_TIME\<close> return identical
  results, whatever their own wall-clock readings.
\<close>

theorem now_is_read_at_import:
  "CURRENT_TIME (import_module t) = t
   \<and> CURRENT_TIME (s\<lparr>wall_clock := t'\<rparr>) = CURRENT_TIME s
   \<and> (CURRENT_TIME s = CURRENT_TIME s' \<longrightarrow>
         evaluate_periodic s iam_client vp = evaluate_periodic s' iam_client vp)
   \<and> (\<forall>evs. evaluate_periodic s iam_client vp = Inr evs \<longrightarrow>
         (\<forall>i < length evs. \<exists>ref.
             (CreateDate (get_roles iam_client ! i) = Some ref
              \<or> (\<exists>lu. RoleLastUsed (get_roles iam_client ! i) = Some lu
                       \<and> LastUsedDate lu = Some ref))
             \<and> (complianceType (evs ! i) = COMPLIANT
                  \<longleftrightarrow> py_int_le (timedelta_days (CURRENT_TIME s) ref)
                                   (dict_get vp ''DaysBeforeUnused'') = Inr True)))"
proof -
  have same: "evaluate_periodic s iam_client vp = evaluate_periodic s' iam_client vp"
    if "CURRENT_TIME s = CURRENT_TIME s'"
    unfolding evaluate_periodic_def
    by (rule evaluate_roles_cong) (simp add: evaluate_role_CURRENT_TIME [OF that])
  have each: "\<exists>ref.
             (CreateDate (get_roles iam_client ! i) = Some ref
              \<or> (\<exists>lu. RoleLastUsed (get_roles iam_client ! i) = Some lu
                       \<and> LastUsedDate lu = Some ref))
             \<and> (complianceType (evs ! i) = COMPLIANT
                  \<longleftrightarrow> py_int_le (timedelta_days (CURRENT_TIME s) ref)
                                   (dict_get vp ''DaysBeforeUnused'') = Inr True)"
    if run: "evaluate_periodic s iam_client vp = Inr evs" and i: "i < length evs" for evs i
  proof -
    let ?r = "get_roles iam_client ! i"
    have "length evs = length (get_roles iam_client)"
      using run by (rule evaluate_periodic_nth(1))
    with i have "evaluate_role s vp ?r = Inr (evs ! i)"
      using evaluate_periodic_nth(2) [OF run] by simp
    then obtain age d where age: "role_diff s ?r = Inr age"
      and d: "dict_get vp ''DaysBeforeUnused'' = PyInt d"
      and e: "evs ! i = (if age \<le> d
              then \<lparr>complianceType = COMPLIANT, resourceId = RoleName ?r,
                    resourceType = ''AWS::IAM::Role'', annotation = None\<rparr>
              else \<lparr>complianceType = NON_COMPLIANT, resourceId = RoleName ?r,
                    resourceType = ''AWS::IAM::Role'',
                    annotation = Some (''This AWS IAM Role has not been used within the last ''
                                       @ str_int d @ '' day(s)'')\<rparr>)"
      by (rule evaluate_role_Inr)
    from role_diff_Inr [OF age] obtain ref where
      ref: "CreateDate ?r = Some ref \<or> (\<exists>lu. RoleLastUsed ?r = Some lu \<and> LastUsedDate lu = Some ref)"
      and a: "age = timedelta_days (CURRENT_TIME s) ref"
      by blast
    have "complianceType (evs ! i) = COMPLIANT
            \<longleftrightarrow> py_int_le (timedelta_days (CURRENT_TIME s) ref)
                             (dict_get vp ''DaysBeforeUnused'') = Inr True"
      by (simp add: e d a)
    with ref show ?thesis by blast
  qed
  have "CURRENT_TIME (import_module t) = t"
    by (simp add: import_module_def)
  moreover have "CURRENT_TIME (s\<lparr>wall_clock := t'\<rparr>) = CURRENT_TIME s"
    by simp
  ultimately show ?thesis using same each by blast
qed

theorem now_is_read_at_import_witness:
  "CURRENT_TIME (import_module 8640000000000) = 8640000000000
   \<and> CURRENT_TIME ((import_module 8640000000000)\<lparr>wall_clock := 12960000000000\<rparr>)
       = CURRENT_TIME (import_module 8640000000000)
   \<and> evaluate_periodic ((import_module 8640000000000)\<lparr>wall_clock := 12960000000000\<rparr>)
        [\<lparr>Roles = [\<lparr>RoleName = Some ''config-rule'', CreateDate = Some 0,
                    RoleLastUsed = Some \<lparr>LastUsedDate = Some 3456000000000, Region = None\<rparr>\<rparr>]\<rparr>]
        [(''DaysBeforeUnused'', PyInt 80)]
       = evaluate_periodic (import_module 8640000000000)
        [\<lparr>Roles = [\<lparr>RoleName = Some ''config-rule'', CreateDate = Some 0,
                    RoleLastUsed = Some \<lparr>LastUsedDate = Some 3456000000000, Region = None\<rparr>\<rparr>]\<rparr>]
        [(''DaysBeforeUnused'', PyInt 80)]"
  using now_is_read_at_import
          [where t = 8640000000000
             and s = "(import_module 8640000000000)\<lparr>wall_clock := 12960000000000\<rparr>"
             and t' = 12960000000000
             and s' = "import_module 8640000000000"
             and iam_client = "[\<lparr>Roles = [\<lparr>RoleName = Some ''config-rule'', CreateDate = Some 0,
                    RoleLastUsed = Some \<lparr>LastUsedDate = Some 3456000000000, Region = None\<rparr>\<rparr>]\<rparr>]"
             and vp = "[(''DaysBeforeUnused'', PyInt 80)]"]
  by (simp add: import_module_def)

end
